theory Spec2Isabelle
  imports Complex_Main "HOL-Library.Char_ord" "HOL-Library.List_Lexorder"
begin

section \<open>Phone-prefix analysis of a user export (analisis\_telefonos\_streaming.py)\<close>

text \<open>
  A shallow embedding of \<^verbatim>\<open>src/utils/analisis_telefonos_streaming.py\<close>.
  Python strings are modelled as \<^typ>\<open>string\<close>: a character is read as a code point
  below 256, so the only decimal digits are \<open>0\<close> to \<open>9\<close> and the white space that
  \<^verbatim>\<open>str.strip()\<close> removes is the white space of that range.
\<close>

subsection \<open>String operations of the Python library used by the script\<close>

definition is_digit :: "char \<Rightarrow> bool" where
  \<comment> \<open>what the regular expression \<^verbatim>\<open>\d\<close> matches\<close>
  "is_digit c = (CHR ''0'' \<le> c \<and> c \<le> CHR ''9'')"

definition solo_digitos :: "string \<Rightarrow> string" where
  \<comment> \<open>\<^verbatim>\<open>re.sub(r'\D', '', s)\<close>\<close>
  "solo_digitos s = filter is_digit s"

definition is_space :: "char \<Rightarrow> bool" where
  \<comment> \<open>\<^verbatim>\<open>str.isspace\<close> on one character: tab to carriage return, the four
     separators 0x1C to 0x1F, space, NEL and the no-break space\<close>
  "is_space c = (c \<in> set [CHR 0x09, CHR 0x0A, CHR 0x0B, CHR 0x0C, CHR 0x0D,
                           CHR 0x1C, CHR 0x1D, CHR 0x1E, CHR 0x1F, CHR 0x20,
                           CHR 0x85, CHR 0xA0])"

definition strip :: "string \<Rightarrow> string" where
  \<comment> \<open>\<^verbatim>\<open>s.strip()\<close>\<close>
  "strip s = rev (dropWhile is_space (rev (dropWhile is_space s)))"

definition startswith :: "string \<Rightarrow> string \<Rightarrow> bool" where
  \<comment> \<open>\<^verbatim>\<open>s.startswith(p)\<close>\<close>
  "startswith s p = (take (length p) s = p)"

definition endswith :: "string \<Rightarrow> string \<Rightarrow> bool" where
  \<comment> \<open>\<^verbatim>\<open>s.endswith(p)\<close>\<close>
  "endswith s p = (take (length p) (rev s) = rev p)"

fun al_primero :: "char \<Rightarrow> string list \<Rightarrow> string list" where
  \<comment> \<open>one more character at the front of the first piece\<close>
  "al_primero c [] = [[c]]"
| "al_primero c (w # ws) = (c # w) # ws"

fun split_char :: "char \<Rightarrow> string \<Rightarrow> string list" where
  \<comment> \<open>\<^verbatim>\<open>s.split(sep)\<close> for a separator of one character: never the empty list\<close>
  "split_char sep [] = [[]]"
| "split_char sep (c # cs) =
     (if c = sep then [] # split_char sep cs else al_primero c (split_char sep cs))"

definition ultimos_10 :: "string \<Rightarrow> string" where
  \<comment> \<open>\<^verbatim>\<open>s[-10:]\<close>\<close>
  "ultimos_10 s = drop (length s - 10) s"

subsection \<open>The prefix heuristic\<close>

definition es_numero_mexicano_sin_prefijo :: "string \<Rightarrow> bool" where
  "es_numero_mexicano_sin_prefijo numero =
     (if numero = [] then False
      else length (solo_digitos numero) = 10)"

subsection \<open>The registration index (cargar\_datos\_csv)\<close>

text \<open>
  The index is a Python dict from the last ten digits of a phone to the raw date field.
  The loader receives the decoded text of the CSV file after the byte-order mark is
  removed, or \<open>None\<close> when opening or reading the file raises (the source catches
  every exception and returns the empty dict). The character U+FEFF that the source
  strips from the first header cell is outside the modelled character range.
\<close>

type_synonym registros = "string \<rightharpoonup> string"

fun indice :: "'a list \<Rightarrow> 'a \<Rightarrow> nat" where
  \<comment> \<open>\<^verbatim>\<open>xs.index(x)\<close>, called by the source only after \<^verbatim>\<open>x in xs\<close>\<close>
  "indice [] x = 0"
| "indice (y # ys) x = (if y = x then 0 else Suc (indice ys x))"

definition encabezado_de :: "string list \<Rightarrow> string list" where
  \<comment> \<open>lines 79 and 82: the header cells, the first one stripped again\<close>
  "encabezado_de lineas =
     (let encabezado = split_char CHR '','' (strip (hd lineas))
      in strip (hd encabezado) # tl encabezado)"

definition procesar_linea_csv :: "nat \<Rightarrow> nat \<Rightarrow> registros \<Rightarrow> string \<Rightarrow> registros" where
  \<comment> \<open>the body of the loop of lines 90 to 103\<close>
  "procesar_linea_csv hostRegister_idx phone_idx registros linea =
     (if strip linea \<noteq> [] then
        (let campos = split_char CHR '','' (strip linea) in
         if length campos \<ge> max hostRegister_idx phone_idx + 1 then
           (let fecha_registro = campos ! hostRegister_idx;
                numero_telefono = campos ! phone_idx;
                numero_limpio = solo_digitos numero_telefono
            in if length numero_limpio \<ge> 10
               then registros(ultimos_10 numero_limpio \<mapsto> fecha_registro)
               else registros)
         else registros)
      else registros)"

definition cargar_datos_csv :: "string option \<Rightarrow> registros" where
  "cargar_datos_csv contenido =
     (case contenido of
        None \<Rightarrow> Map.empty
      | Some texto \<Rightarrow>
          (let lineas = split_char CHR 0x0A texto;
               encabezado = encabezado_de lineas
           in if ''hostRegister'' \<in> set encabezado \<and> ''phone'' \<in> set encabezado
              then foldl (procesar_linea_csv (indice encabezado ''hostRegister'')
                                             (indice encabezado ''phone''))
                         Map.empty (tl lineas)
              else Map.empty))"

subsection \<open>JSON values and the Python operations applied to them\<close>

text \<open>
  What \<^verbatim>\<open>json.loads\<close> returns: a dict is an association list read with
  \<^const>\<open>map_of\<close>, a number is its value. The parser itself belongs to the Python
  library, so every function below takes it as the parameter \<open>loads\<close>, with
  \<open>None\<close> where it raises \<^verbatim>\<open>JSONDecodeError\<close>. The same holds for
  \<^verbatim>\<open>datetime.strptime(s, '%Y-%m-%d %H:%M:%S')\<close>: the parameter \<open>strptime\<close>
  gives the year and the month of the parsed date, \<open>None\<close> where it raises.
\<close>

datatype json =
    JNull
  | JBool bool
  | JNum rat
  | JStr string
  | JArr "json list"
  | JObj "(string \<times> json) list"

datatype excepcion = TypeError | KeyError string

type_synonym cargador = "string \<Rightarrow> json option"
type_synonym analizador_fecha = "string \<Rightarrow> (nat \<times> nat) option"

definition luego :: "excepcion + 'a \<Rightarrow> ('a \<Rightarrow> excepcion + 'b) \<Rightarrow> excepcion + 'b" where
  \<comment> \<open>sequencing: an exception raised by the first step skips the rest\<close>
  "luego r f = (case r of Inl e \<Rightarrow> Inl e | Inr x \<Rightarrow> f x)"

fun truthy :: "json \<Rightarrow> bool" where
  "truthy JNull = False"
| "truthy (JBool b) = b"
| "truthy (JNum n) = (n \<noteq> 0)"
| "truthy (JStr s) = (s \<noteq> [])"
| "truthy (JArr xs) = (xs \<noteq> [])"
| "truthy (JObj kvs) = (kvs \<noteq> [])"

fun contiene :: "string \<Rightarrow> string \<Rightarrow> bool" where
  \<comment> \<open>\<^verbatim>\<open>sub in s\<close> on two strings\<close>
  "contiene sub [] = (sub = [])"
| "contiene sub (c # cs) = (startswith (c # cs) sub \<or> contiene sub cs)"

fun py_in :: "string \<Rightarrow> json \<Rightarrow> excepcion + bool" where
  \<comment> \<open>\<^verbatim>\<open>'k' in v\<close>: a key of a dict, an element of a list, a substring of a string\<close>
  "py_in k (JObj kvs) = Inr (k \<in> set (map fst kvs))"
| "py_in k (JArr xs) = Inr (JStr k \<in> set xs)"
| "py_in k (JStr s) = Inr (contiene k s)"
| "py_in k v = Inl TypeError"

fun py_item :: "json \<Rightarrow> string \<Rightarrow> excepcion + json" where
  \<comment> \<open>\<^verbatim>\<open>v['k']\<close>: only a dict takes a string subscript\<close>
  "py_item (JObj kvs) k = (case map_of kvs k of None \<Rightarrow> Inl (KeyError k) | Some x \<Rightarrow> Inr x)"
| "py_item v k = Inl TypeError"

fun py_get :: "json \<Rightarrow> string \<Rightarrow> json \<Rightarrow> json" where
  \<comment> \<open>\<^verbatim>\<open>d.get('k', default)\<close>, applied by the source to a dict only\<close>
  "py_get (JObj kvs) k d = (case map_of kvs k of None \<Rightarrow> d | Some x \<Rightarrow> x)"
| "py_get v k d = d"

fun py_re_sub_D :: "json \<Rightarrow> excepcion + string" where
  \<comment> \<open>\<^verbatim>\<open>re.sub(r'\D', '', v)\<close>: raises unless \<open>v\<close> is a string\<close>
  "py_re_sub_D (JStr s) = Inr (solo_digitos s)"
| "py_re_sub_D v = Inl TypeError"

subsection \<open>Decimal formatting\<close>

definition digito :: "nat \<Rightarrow> char" where
  "digito d = char_of (48 + d)"

fun str_nat :: "nat \<Rightarrow> string" where
  \<comment> \<open>\<^verbatim>\<open>str(n)\<close> of a non-negative int\<close>
  "str_nat n = (if n < 10 then [digito n] else str_nat (n div 10) @ [digito (n mod 10)])"

declare str_nat.simps [simp del]

definition formato_02d :: "nat \<Rightarrow> string" where
  \<comment> \<open>\<^verbatim>\<open>f"{n:02d}"\<close>\<close>
  "formato_02d n = (if n < 10 then CHR ''0'' # str_nat n else str_nat n)"

subsection \<open>The record classifier (procesar\_objeto)\<close>

record info_usuario =
  phone :: string
  phone_limpio :: string
  ultimos_10_digitos :: string
  phone_length :: nat
  email :: json
  external_id :: json
  country :: json
  fecha_registro :: json
  anio_registro :: "nat option"
  mes_registro :: "nat option"
  periodo :: "string option"
  nombre :: "json option"
  apellido_paterno :: "json option"
  apellido_materno :: "json option"
  entidad :: "json option"

record usuario_procesado =
  sin_prefijo :: bool
  info :: info_usuario

datatype evento =
    ErrorDecodificarJSON string
      \<comment> \<open>\<^verbatim>\<open>Error al decodificar JSON: {objeto_json[:100]}...\<close>, with the preview\<close>
  | ErrorProcesarObjeto excepcion
      \<comment> \<open>\<^verbatim>\<open>Error al procesar objeto: {str(e)}\<close>\<close>
  | ErrorNoComienzaConCorchete
      \<comment> \<open>\<^verbatim>\<open>Error: El archivo no comienza con '['. No es un JSON valido.\<close>\<close>
  | ErrorProcesarArchivo
      \<comment> \<open>\<^verbatim>\<open>Error al procesar el archivo: {str(e)}\<close>\<close>

definition no_disponible :: string where
  "no_disponible = ''No disponible''"

definition con_fecha_csv :: "analizador_fecha \<Rightarrow> registros \<Rightarrow> info_usuario \<Rightarrow> info_usuario" where
  \<comment> \<open>lines 264 to 274: the join with the index, the date parsed inside its own try\<close>
  "con_fecha_csv strptime fechas_registro_csv i =
     (case fechas_registro_csv (ultimos_10_digitos i) of
        None \<Rightarrow> i
      | Some fecha \<Rightarrow>
          (let i1 = i\<lparr>fecha_registro := JStr fecha\<rparr>
           in case strptime fecha of
                None \<Rightarrow> i1
              | Some (anio, mes) \<Rightarrow>
                  i1\<lparr>anio_registro := Some anio, mes_registro := Some mes,
                     periodo := Some (str_nat anio @ ''-'' @ formato_02d mes)\<rparr>))"

definition copiar_atributo :: "json \<Rightarrow> string \<Rightarrow> excepcion + json option" where
  \<comment> \<open>\<^verbatim>\<open>if 'k' in ca: info[...] = ca['k']\<close>\<close>
  "copiar_atributo ca k =
     luego (py_in k ca) (\<lambda>esta.
       if esta then luego (py_item ca k) (\<lambda>v. Inr (Some v)) else Inr None)"

definition con_atributos :: "json \<Rightarrow> info_usuario \<Rightarrow> excepcion + info_usuario" where
  \<comment> \<open>lines 277 to 288\<close>
  "con_atributos usuario i =
     luego (py_in ''custom_attributes'' usuario) (\<lambda>hay.
       if \<not> hay then Inr i
       else
         luego (py_item usuario ''custom_attributes'') (\<lambda>ca.
         luego (copiar_atributo ca ''name'') (\<lambda>n.
         luego (copiar_atributo ca ''paternal'') (\<lambda>p.
         luego (copiar_atributo ca ''maternal'') (\<lambda>m.
         luego (copiar_atributo ca ''entity'') (\<lambda>e.
         luego (py_in ''fechaRegistro'' ca) (\<lambda>esta.
           (let i1 = i\<lparr>nombre := n, apellido_paterno := p,
                         apellido_materno := m, entidad := e\<rparr>
            in if esta \<and> fecha_registro i1 = JStr no_disponible
               then luego (py_item ca ''fechaRegistro'') (\<lambda>f. Inr (i1\<lparr>fecha_registro := f\<rparr>))
               else Inr i1))))))))"

definition sufijo_telefono :: "string \<Rightarrow> string" where
  \<comment> \<open>line 246\<close>
  "sufijo_telefono numero_limpio =
     (if length numero_limpio \<ge> 10 then ultimos_10 numero_limpio else numero_limpio)"

definition clasificar :: "analizador_fecha \<Rightarrow> registros \<Rightarrow> json \<Rightarrow> excepcion + usuario_procesado option" where
  \<comment> \<open>the body of the try of procesar\_objeto, after \<^verbatim>\<open>json.loads\<close>\<close>
  "clasificar strptime fechas_registro_csv usuario =
     luego (py_in ''phone'' usuario) (\<lambda>tiene.
       if \<not> tiene then Inr None
       else
         luego (py_item usuario ''phone'') (\<lambda>telefono.
           if \<not> truthy telefono then Inr None
           else
             luego (py_re_sub_D telefono) (\<lambda>numero_limpio.
               (let tiene_sin_prefijo =
                      (case telefono of JStr numero \<Rightarrow> es_numero_mexicano_sin_prefijo numero
                       | _ \<Rightarrow> False);
                    i = \<lparr>phone = (case telefono of JStr numero \<Rightarrow> numero | _ \<Rightarrow> []),
                         phone_limpio = numero_limpio,
                         ultimos_10_digitos = sufijo_telefono numero_limpio,
                         phone_length = length numero_limpio,
                         email = py_get usuario ''email'' (JStr no_disponible),
                         external_id = py_get usuario ''external_id'' (JStr no_disponible),
                         country = py_get usuario ''country'' (JStr no_disponible),
                         fecha_registro = JStr no_disponible,
                         anio_registro = None, mes_registro = None, periodo = None,
                         nombre = None, apellido_paterno = None,
                         apellido_materno = None, entidad = None\<rparr>
                in luego (con_atributos usuario (con_fecha_csv strptime fechas_registro_csv i))
                     (\<lambda>i'. Inr (Some \<lparr>sin_prefijo = tiene_sin_prefijo, info = i'\<rparr>))))))"

definition procesar_objeto ::
  "cargador \<Rightarrow> analizador_fecha \<Rightarrow> string \<Rightarrow> registros \<Rightarrow> usuario_procesado option \<times> evento list" where
  \<comment> \<open>the result (\<open>None\<close> for Python's None) and what the call prints\<close>
  "procesar_objeto loads strptime objeto_json fechas_registro_csv =
     (case loads objeto_json of
        None \<Rightarrow> (None, [ErrorDecodificarJSON (take 100 objeto_json)])
      | Some usuario \<Rightarrow>
          (case clasificar strptime fechas_registro_csv usuario of
             Inl e \<Rightarrow> (None, [ErrorProcesarObjeto e])
           | Inr r \<Rightarrow> (r, [])))"

subsection \<open>Python floats\<close>

text \<open>
  A finite float is modelled by the rational number it denotes. \<open>a_double\<close> rounds a
  rational to the nearest number with a 53-bit significand, ties to the even
  significand, as IEEE 754 binary64 arithmetic does (the exponent range is not bounded:
  the quotients of the script lie between 0 and 100). True division of two ints and
  the product of two floats are correctly rounded; \<^verbatim>\<open>round(x, 2)\<close> rounds the exact
  value of \<open>x\<close> to two decimals, ties to even, and returns the nearest float.
\<close>

datatype pynum = PInt int | PFloat rat

fun bitlen :: "nat \<Rightarrow> nat" where
  \<comment> \<open>the number of binary digits\<close>
  "bitlen n = (if n = 0 then 0 else Suc (bitlen (n div 2)))"

definition exponente2 :: "rat \<Rightarrow> int" where
  \<comment> \<open>the integer part of the binary logarithm of a positive rational\<close>
  "exponente2 x =
     (if 1 \<le> x then int (bitlen (nat \<lfloor>x\<rfloor>)) - 1
      else - int (bitlen (nat \<lceil>1 / x\<rceil> - 1)))"

definition pot2 :: "int \<Rightarrow> rat" where
  "pot2 e = (if 0 \<le> e then 2 ^ nat e else 1 / 2 ^ nat (- e))"

definition redondear_par :: "rat \<Rightarrow> int" where
  \<comment> \<open>the nearest integer, a tie going to the even one\<close>
  "redondear_par x =
     (let f = \<lfloor>x\<rfloor>; d = x - of_int f
      in if d < 1 / 2 then f else if 1 / 2 < d then f + 1
         else if even f then f else f + 1)"

definition a_double :: "rat \<Rightarrow> rat" where
  "a_double x =
     (if x = 0 then 0
      else (let e = exponente2 \<bar>x\<bar> - 52
            in of_int (redondear_par (x / pot2 e)) * pot2 e))"

definition py_truediv :: "nat \<Rightarrow> nat \<Rightarrow> rat" where
  \<comment> \<open>\<^verbatim>\<open>a / b\<close> on ints, evaluated by the source only when \<open>b > 0\<close>\<close>
  "py_truediv a b = a_double (of_nat a / of_nat b)"

definition py_mul :: "rat \<Rightarrow> rat \<Rightarrow> rat" where
  "py_mul x y = a_double (x * y)"

definition py_round2 :: "rat \<Rightarrow> rat" where
  \<comment> \<open>\<^verbatim>\<open>round(x, 2)\<close>\<close>
  "py_round2 x = a_double (of_int (redondear_par (x * 100)) / 100)"

definition porcentaje_de :: "nat \<Rightarrow> nat \<Rightarrow> pynum" where
  \<comment> \<open>\<^verbatim>\<open>round((a / total * 100), 2) if total > 0 else 0\<close>, written three times in
     the source (lines 218, 344 and 345)\<close>
  "porcentaje_de a total' =
     (if total' > 0 then PFloat (py_round2 (py_mul (py_truediv a total') 100)) else PInt 0)"

subsection \<open>The temporal aggregator (analizar\_distribucion\_temporal)\<close>

record dato_periodo =
  b_periodo :: string
  b_sin_prefijo :: nat
  b_con_prefijo :: nat
  b_total :: nat
  b_porcentaje_sin_prefijo :: pynum
  b_porcentaje_con_prefijo :: pynum

record analisis =
  periodos :: "string list"
  datos :: "dato_periodo list"

text \<open>
  A \<^verbatim>\<open>defaultdict(int)\<close> is an association list in insertion order; reading a
  missing key gives 0.
\<close>

definition valor :: "(string \<times> nat) list \<Rightarrow> string \<Rightarrow> nat" where
  "valor d k = (case map_of d k of None \<Rightarrow> 0 | Some n \<Rightarrow> n)"

fun poner :: "string \<Rightarrow> nat \<Rightarrow> (string \<times> nat) list \<Rightarrow> (string \<times> nat) list" where
  \<comment> \<open>\<^verbatim>\<open>d[k] = v\<close>: in place when the key is there, at the end otherwise\<close>
  "poner k v [] = [(k, v)]"
| "poner k v (p # ps) = (if fst p = k then (k, v) # ps else p # poner k v ps)"

definition contar_periodos :: "info_usuario list \<Rightarrow> (string \<times> nat) list" where
  \<comment> \<open>the loops of lines 320 to 326\<close>
  "contar_periodos usuarios =
     foldl (\<lambda>d usuario. case periodo usuario of
                           None \<Rightarrow> d
                         | Some p \<Rightarrow> poner p (valor d p + 1) d)
           [] usuarios"

definition analizar_distribucion_temporal :: "info_usuario list \<Rightarrow> info_usuario list \<Rightarrow> analisis" where
  "analizar_distribucion_temporal usuarios_sin usuarios_con =
     (let periodos_sin_prefijo = contar_periodos usuarios_sin;
          periodos_con_prefijo = contar_periodos usuarios_con;
          todos_periodos = sort (remdups (map fst periodos_sin_prefijo @ map fst periodos_con_prefijo))
      in \<lparr>periodos = todos_periodos,
          datos = map (\<lambda>p.
                    (let s = valor periodos_sin_prefijo p;
                         c = valor periodos_con_prefijo p;
                         total' = s + c
                     in \<lparr>b_periodo = p, b_sin_prefijo = s, b_con_prefijo = c, b_total = total',
                         b_porcentaje_sin_prefijo = porcentaje_de s total',
                         b_porcentaje_con_prefijo = porcentaje_de c total'\<rparr>))
                  todos_periodos\<rparr>)"

subsection \<open>The streaming reconstructor (analizar\_archivo\_json\_streaming)\<close>

text \<open>
  The local variables of the function, with two traces: \<open>entregados\<close> lists the texts
  passed to \<open>procesar_objeto\<close>, in order, and \<open>bitacora\<close> the error messages printed.
\<close>

record estado =
  objeto_actual :: string
  en_objeto :: bool
  llaves_abiertas :: int
  usuarios_sin_prefijo :: "info_usuario list"
  usuarios_con_prefijo :: "info_usuario list"
  total_usuarios :: nat
  total_usuarios_con_telefono :: nat
  entregados :: "string list"
  bitacora :: "evento list"

definition estado_inicial :: estado where
  "estado_inicial =
     \<lparr>objeto_actual = [], en_objeto = False, llaves_abiertas = 0,
      usuarios_sin_prefijo = [], usuarios_con_prefijo = [],
      total_usuarios = 0, total_usuarios_con_telefono = 0,
      entregados = [], bitacora = []\<rparr>"

definition balance_llaves :: "string \<Rightarrow> int" where
  \<comment> \<open>\<^verbatim>\<open>linea.count('{') - linea.count('}')\<close>\<close>
  "balance_llaves linea = int (count_list linea CHR ''{'') - int (count_list linea CHR ''}'')"

definition contabilizar ::
  "cargador \<Rightarrow> analizador_fecha \<Rightarrow> registros \<Rightarrow> string \<Rightarrow> estado \<Rightarrow> estado" where
  \<comment> \<open>lines 173 to 182, repeated at lines 198 to 207\<close>
  "contabilizar loads strptime fechas_registro_csv objeto_json st =
     (let (resultado, avisos) = procesar_objeto loads strptime objeto_json fechas_registro_csv;
          st1 = st\<lparr>entregados := entregados st @ [objeto_json],
                   bitacora := bitacora st @ avisos\<rparr>;
          st2 = (case resultado of
                   None \<Rightarrow> st1
                 | Some u \<Rightarrow>
                     (let st' = st1\<lparr>total_usuarios_con_telefono := total_usuarios_con_telefono st1 + 1\<rparr>
                      in if sin_prefijo u
                         then st'\<lparr>usuarios_sin_prefijo := usuarios_sin_prefijo st' @ [info u]\<rparr>
                         else st'\<lparr>usuarios_con_prefijo := usuarios_con_prefijo st' @ [info u]\<rparr>))
      in st2\<lparr>total_usuarios := total_usuarios st2 + 1, objeto_actual := []\<rparr>)"

definition sin_coma_final :: "string \<Rightarrow> string \<Rightarrow> string" where
  \<comment> \<open>lines 167 to 170 and 192 to 195\<close>
  "sin_coma_final linea objeto = (if endswith linea ''},'' then butlast objeto else objeto)"

definition paso :: "cargador \<Rightarrow> analizador_fecha \<Rightarrow> registros \<Rightarrow> estado \<Rightarrow> string \<Rightarrow> estado" where
  \<comment> \<open>the body of the loop of lines 149 to 207, for one line of the file\<close>
  "paso loads strptime fechas_registro_csv st linea_leida =
     (let linea = strip linea_leida in
      if linea = [] then st
      else if \<not> en_objeto st then
        (if startswith linea ''{'' then
           (let st1 = st\<lparr>en_objeto := True, objeto_actual := linea,
                          llaves_abiertas := balance_llaves linea\<rparr>
            in if llaves_abiertas st1 = 0 \<and> endswith linea ''},'' \<or> endswith linea ''}''
               then contabilizar loads strptime fechas_registro_csv
                      (sin_coma_final linea (objeto_actual st1)) (st1\<lparr>en_objeto := False\<rparr>)
               else st1)
         else st)
      else
        (let st1 = st\<lparr>objeto_actual := objeto_actual st @ linea,
                       llaves_abiertas := llaves_abiertas st + balance_llaves linea\<rparr>
         in if llaves_abiertas st1 = 0 \<and> (endswith linea ''},'' \<or> endswith linea ''}'')
            then contabilizar loads strptime fechas_registro_csv
                   (sin_coma_final linea (objeto_actual st1)) (st1\<lparr>en_objeto := False\<rparr>)
            else st1))"

record resumen =
  res_total_usuarios :: nat
  res_total_con_telefono :: nat
  res_total_sin_prefijo :: nat
  res_total_con_prefijo :: nat
  res_porcentaje_sin_prefijo :: pynum
  res_analisis_temporal :: analisis

text \<open>
  The function returns either the dict with the six keys above or the empty dict:
  \<open>Some\<close> of the record or \<open>None\<close>. The input file is the list of its lines, or
  \<open>None\<close> when opening or reading it raises.
\<close>

type_synonym salida = "info_usuario list \<times> info_usuario list \<times> nat \<times> resumen option"

definition leer_objetos :: "cargador \<Rightarrow> analizador_fecha \<Rightarrow> registros \<Rightarrow> string list \<Rightarrow> estado" where
  \<comment> \<open>the loop over the lines after the first\<close>
  "leer_objetos loads strptime fechas_registro_csv lineas =
     foldl (paso loads strptime fechas_registro_csv) estado_inicial lineas"

definition resumir :: "estado \<Rightarrow> salida" where
  \<comment> \<open>lines 210 to 222\<close>
  "resumir st =
     (usuarios_sin_prefijo st, usuarios_con_prefijo st, total_usuarios_con_telefono st,
      Some \<lparr>res_total_usuarios = total_usuarios st,
            res_total_con_telefono = total_usuarios_con_telefono st,
            res_total_sin_prefijo = length (usuarios_sin_prefijo st),
            res_total_con_prefijo = length (usuarios_con_prefijo st),
            res_porcentaje_sin_prefijo =
              porcentaje_de (length (usuarios_sin_prefijo st)) (total_usuarios_con_telefono st),
            res_analisis_temporal =
              analizar_distribucion_temporal (usuarios_sin_prefijo st) (usuarios_con_prefijo st)\<rparr>)"

definition analizar_archivo_json_streaming ::
  "cargador \<Rightarrow> analizador_fecha \<Rightarrow> string option \<Rightarrow> string list option \<Rightarrow> salida \<times> evento list" where
  "analizar_archivo_json_streaming loads strptime contenido_csv archivo =
     (let fechas_registro_csv = cargar_datos_csv contenido_csv in
      case archivo of
        None \<Rightarrow> (([], [], 0, None), [ErrorProcesarArchivo])
      | Some lineas \<Rightarrow>
          (let primera_linea = strip (case lineas of [] \<Rightarrow> [] | l # _ \<Rightarrow> l) in
           if primera_linea \<noteq> ''[''
           then (([], [], 0, None), [ErrorNoComienzaConCorchete])
           else (let st = leer_objetos loads strptime fechas_registro_csv (tl lineas)
                 in (resumir st, bitacora st))))"

definition main ::
  "cargador \<Rightarrow> analizador_fecha \<Rightarrow> string option \<Rightarrow> string list option
     \<Rightarrow> excepcion + (info_usuario list \<times> info_usuario list \<times> resumen)" where
  \<comment> \<open>the exception that ends the run, or the three values handed to guardar\_resultados;
     line 415 reads \<^verbatim>\<open>resultados_analisis['total_usuarios']\<close> first\<close>
  "main loads strptime contenido_csv archivo =
     (case fst (analizar_archivo_json_streaming loads strptime contenido_csv archivo) of
        (usuarios_sin, usuarios_con, total_con_telefono, resultados_analisis) \<Rightarrow>
          (case resultados_analisis of
             None \<Rightarrow> Inl (KeyError ''total_usuarios'')
           | Some r \<Rightarrow> Inr (usuarios_sin, usuarios_con, r)))"

subsection \<open>Notions used to state the properties\<close>

definition campos_de :: "string \<Rightarrow> string list" where
  "campos_de linea = split_char CHR '','' (strip linea)"

definition fila_valida :: "nat \<Rightarrow> nat \<Rightarrow> string \<Rightarrow> bool" where
  \<comment> \<open>a data line that is not blank, has both fields, and whose phone field holds
     at least ten digits\<close>
  "fila_valida h p linea =
     (strip linea \<noteq> [] \<and> max h p < length (campos_de linea)
      \<and> 10 \<le> length (solo_digitos (campos_de linea ! p)))"

definition clave_fila :: "nat \<Rightarrow> string \<Rightarrow> string" where
  \<comment> \<open>the last ten digits of the phone field\<close>
  "clave_fila p linea = ultimos_10 (solo_digitos (campos_de linea ! p))"

definition fecha_fila :: "nat \<Rightarrow> string \<Rightarrow> string" where
  "fecha_fila h linea = campos_de linea ! h"

definition cuenta_periodo :: "string \<Rightarrow> info_usuario list \<Rightarrow> nat" where
  \<comment> \<open>how many records of a list carry the period\<close>
  "cuenta_periodo p usuarios = length (filter (\<lambda>u. periodo u = Some p) usuarios)"

definition periodos_presentes :: "info_usuario list \<Rightarrow> string set" where
  "periodos_presentes usuarios = {p. Some p \<in> set (map periodo usuarios)}"

definition forma_periodo :: "string \<Rightarrow> bool" where
  \<comment> \<open>four digits, a hyphen, two digits\<close>
  "forma_periodo s =
     (length s = 7 \<and> list_all is_digit (take 4 s) \<and> s ! 4 = CHR ''-''
      \<and> list_all is_digit (drop 5 s))"


definition consistente :: "estado \<Rightarrow> bool" where
  \<comment> \<open>the counter of users with a phone is the size of the two lists together, and
     at most the counter of all objects\<close>
  "consistente st =
     (total_usuarios_con_telefono st
        = length (usuarios_sin_prefijo st) + length (usuarios_con_prefijo st)
      \<and> total_usuarios_con_telefono st \<le> total_usuarios st)"




definition contadores_salida :: "salida \<Rightarrow> nat \<times> nat \<times> nat \<times> (nat \<times> nat \<times> nat \<times> nat \<times> pynum) option" where
  \<comment> \<open>the sizes of the two lists, the returned count, and the counters of the summary\<close>
  "contadores_salida r =
     (case r of (usuarios_sin, usuarios_con, n, resultados) \<Rightarrow>
        (length usuarios_sin, length usuarios_con, n,
         map_option (\<lambda>x. (res_total_usuarios x, res_total_con_telefono x,
                           res_total_sin_prefijo x, res_total_con_prefijo x,
                           res_porcentaje_sin_prefijo x)) resultados))"

subsection \<open>Concrete inputs\<close>

text \<open>
  The two library parameters on the texts used below: each table agrees with the
  Python function on every text it is applied to in this theory.
\<close>

definition usuario_simple :: json where
  "usuario_simple = JObj [(''phone'', JStr ''15512345678'')]"

definition usuario_diez :: json where
  "usuario_diez = JObj [(''phone'', JStr ''5512345678'')]"

definition usuario_atributos_lista :: json where
  "usuario_atributos_lista =
     JObj [(''phone'', JStr ''5512345678''), (''custom_attributes'', JArr [JStr ''fechaRegistro''])]"

definition usuario_con_override :: json where
  "usuario_con_override =
     JObj [(''phone'', JStr ''5512345678''),
           (''custom_attributes'', JObj [(''fechaRegistro'', JStr ''2020-05-01'')])]"

definition texto_simple :: string where
  \<open>texto_simple = ''{"phone": "15512345678"}''\<close>

definition texto_diez :: string where
  \<open>texto_diez = ''{"phone": "5512345678"}''\<close>

definition texto_atributos_lista :: string where
  \<open>texto_atributos_lista = ''{"phone": "5512345678", "custom_attributes": ["fechaRegistro"]}''\<close>

definition texto_con_override :: string where
  \<open>texto_con_override = ''{"phone": "5512345678", "custom_attributes": {"fechaRegistro": "2020-05-01"}}''\<close>

definition texto_malformado :: string where
  \<open>texto_malformado = ''{"phone": }''\<close>

definition linea_partida :: string where
  \<comment> \<open>the first line of an object whose closing brace is on the next line\<close>
  \<open>linea_partida = ''{"phone": "5512345678", "custom_attributes": {}''\<close>

definition loads_ejemplo :: cargador where
  "loads_ejemplo s =
     map_of [(texto_simple, usuario_simple), (texto_diez, usuario_diez),
             (texto_atributos_lista, usuario_atributos_lista),
             (texto_con_override, usuario_con_override)] s"

definition strptime_ejemplo :: analizador_fecha where
  "strptime_ejemplo s =
     map_of [(''2024-01-15 10:30:00'', (2024, 1)), (''2023-11-02 08:00:00'', (2023, 11)),
             (''0999-01-01 00:00:00'', (999, 1))] s"

definition csv_ejemplo :: string where
  "csv_ejemplo =
     ''hostRegister,phone'' @ [CHR 0x0A]
     @ ''2023-11-02 08:00:00,5215512345678'' @ [CHR 0x0A]
     @ ''2020-02-02 00:00:00,12345'' @ [CHR 0x0A]
     @ [CHR 0x0A]
     @ ''2024-01-15 10:30:00,+52 (55) 1234-5678'' @ [CHR 0x0A]"


definition csv_centinela :: string where
  \<comment> \<open>a row whose date field is the text of the sentinel\<close>
  "csv_centinela = ''hostRegister,phone'' @ [CHR 0x0A] @ ''No disponible,5215512345678''"

definition csv_anio_corto :: string where
  "csv_anio_corto = ''hostRegister,phone'' @ [CHR 0x0A] @ ''0999-01-01 00:00:00,5215512345678''"

definition archivo_ejemplo :: "string list" where
  \<comment> \<open>an array of three objects: one over three lines, one malformed, one on one line\<close>
  \<open>archivo_ejemplo =
     [''['',
      ''  {'',
      ''    "phone": "15512345678"'',
      ''  },'',
      ''  {"phone": },'',
      ''  {"phone": "5512345678"}'',
      '']'']\<close>

definition archivo_malformado :: "string list" where
  \<comment> \<open>an array whose only object is malformed\<close>
  \<open>archivo_malformado = [''['', ''  {"phone": }'', '']'']\<close>

definition archivo_partido :: "string list" where
  \<comment> \<open>an array of one object, whose closing brace is on a line of its own\<close>
  \<open>archivo_partido =
     [''['',
      ''{"phone": "5512345678", "custom_attributes": {}'',
      ''}'',
      '']'']\<close>


definition archivo_compacto :: "string list" where
  \<comment> \<open>a JSON array written on one line\<close>
  \<open>archivo_compacto = [''[{"phone": "15512345678"}]'']\<close>

definition usuario_periodo :: "string option \<Rightarrow> info_usuario" where
  "usuario_periodo p =
     \<lparr>phone = ''5512345678'', phone_limpio = ''5512345678'',
      ultimos_10_digitos = ''5512345678'', phone_length = 10,
      email = JStr no_disponible, external_id = JStr no_disponible,
      country = JStr no_disponible, fecha_registro = JStr no_disponible,
      anio_registro = None, mes_registro = None, periodo = p,
      nombre = None, apellido_paterno = None, apellido_materno = None, entidad = None\<rparr>"

definition us_ejemplo :: "info_usuario list" where
  "us_ejemplo = replicate 3 (usuario_periodo (Some ''2024-01'')) @ [usuario_periodo None]"

definition uc_ejemplo :: "info_usuario list" where
  "uc_ejemplo = usuario_periodo (Some ''2023-12'') # replicate 7 (usuario_periodo (Some ''2024-01''))"

section \<open>Properties\<close>

lemma solo_digitos_Nil [simp]: "solo_digitos [] = []"
  by (simp add: solo_digitos_def)

text \<open>
  Claim C1. A phone string is classified "without prefix" exactly when the string of
  its digit characters has length 10; the answer is a function of the digit count
  alone, so digit counts 0, 9, 11 and 15 all give "with prefix".
\<close>

theorem es_numero_mexicano_sin_prefijo_iff:
  "es_numero_mexicano_sin_prefijo numero = (length (solo_digitos numero) = 10)"
  by (simp add: es_numero_mexicano_sin_prefijo_def)

subsection \<open>The registration index\<close>

lemma procesar_linea_csv_en:
  "procesar_linea_csv h p m l k =
     (if fila_valida h p l \<and> clave_fila p l = k then Some (fecha_fila h l) else m k)"
  by (auto simp: procesar_linea_csv_def fila_valida_def clave_fila_def fecha_fila_def
      campos_de_def Let_def)

lemma foldl_procesar_linea_csv:
  "foldl (procesar_linea_csv h p) m ls k =
     (case filter (\<lambda>l. fila_valida h p l \<and> clave_fila p l = k) (rev ls) of
        [] \<Rightarrow> m k
      | l # _ \<Rightarrow> Some (fecha_fila h l))"
proof (induction ls rule: rev_induct)
  case Nil
  then show ?case by simp
next
  case (snoc l ls)
  show ?case
    using snoc.IH by (simp add: procesar_linea_csv_en)
qed

text \<open>
  Claim C7. When the header names both columns, the index maps a key to the date field
  of the last data line that is not blank, has both fields, holds at least ten digits
  in its phone field and whose last ten digits are the key; a key no such line gives is
  absent, so a line with fewer than ten digits contributes nothing. The CSV phone
  5215512345678 and the JSON phone 15512345678 both reduce to 5512345678.
\<close>

theorem cargar_datos_csv_ultima_fila:
  assumes "lineas = split_char CHR 0x0A texto"
    and "encabezado = encabezado_de lineas"
    and "''hostRegister'' \<in> set encabezado" and "''phone'' \<in> set encabezado"
    and "h = indice encabezado ''hostRegister''" and "p = indice encabezado ''phone''"
  shows "cargar_datos_csv (Some texto) k =
           (case filter (\<lambda>l. fila_valida h p l \<and> clave_fila p l = k) (rev (tl lineas)) of
              [] \<Rightarrow> None
            | l # _ \<Rightarrow> Some (fecha_fila h l))
         \<and> ultimos_10 (solo_digitos ''5215512345678'') = ''5512345678''
         \<and> sufijo_telefono (solo_digitos ''15512345678'') = ''5512345678''"
proof -
  have "cargar_datos_csv (Some texto) = foldl (procesar_linea_csv h p) Map.empty (tl lineas)"
    using assms by (simp add: cargar_datos_csv_def Let_def)
  moreover have "ultimos_10 (solo_digitos ''5215512345678'') = ''5512345678''"
    by (simp add: ultimos_10_def solo_digitos_def is_digit_def)
  moreover have "sufijo_telefono (solo_digitos ''15512345678'') = ''5512345678''"
    by (simp add: sufijo_telefono_def ultimos_10_def solo_digitos_def is_digit_def)
  ultimately show ?thesis
    by (simp add: foldl_procesar_linea_csv)
qed

lemma lineas_csv_ejemplo:
  "split_char CHR 0x0A csv_ejemplo =
     [''hostRegister,phone'', ''2023-11-02 08:00:00,5215512345678'',
      ''2020-02-02 00:00:00,12345'', [], ''2024-01-15 10:30:00,+52 (55) 1234-5678'', []]"
  by (simp add: csv_ejemplo_def)

lemma encabezado_csv_ejemplo:
  "encabezado_de (split_char CHR 0x0A csv_ejemplo) = [''hostRegister'', ''phone'']"
  by (simp add: lineas_csv_ejemplo encabezado_de_def strip_def is_space_def)


theorem cargar_datos_csv_ultima_fila_witness:
  "cargar_datos_csv (Some csv_ejemplo) (sufijo_telefono (solo_digitos ''15512345678''))
     = Some ''2024-01-15 10:30:00''
   \<and> cargar_datos_csv (Some csv_ejemplo) ''12345'' = None"
proof -
  note t = cargar_datos_csv_ultima_fila [OF refl refl, of csv_ejemplo 0 1, unfolded encabezado_csv_ejemplo]
  have a: "cargar_datos_csv (Some csv_ejemplo) ''5512345678'' = Some ''2024-01-15 10:30:00''"
    using t [of "''5512345678''"]
    by (simp add: lineas_csv_ejemplo fila_valida_def clave_fila_def fecha_fila_def campos_de_def
        strip_def is_space_def solo_digitos_def is_digit_def ultimos_10_def)
  have b: "cargar_datos_csv (Some csv_ejemplo) ''12345'' = None"
    using t [of "''12345''"]
    by (simp add: lineas_csv_ejemplo fila_valida_def clave_fila_def fecha_fila_def campos_de_def
        strip_def is_space_def solo_digitos_def is_digit_def ultimos_10_def)
  from a b t [of "''5512345678''"] show ?thesis by simp
qed

subsection \<open>The temporal aggregator\<close>

lemma map_of_poner: "map_of (poner k v d) = (map_of d)(k \<mapsto> v)"
  by (induction d) (auto simp: fun_eq_iff)

lemma claves_poner: "fst ` set (poner k v d) = insert k (fst ` set d)"
  by (induction d) auto

lemma valor_poner: "valor (poner k v d) k' = (if k' = k then v else valor d k')"
  by (simp add: valor_def map_of_poner)

lemma valor_Nil: "valor [] k = 0"
  by (simp add: valor_def)

lemma valor_pos_clave: "0 < valor d k \<Longrightarrow> k \<in> fst ` set d"
  by (auto simp: valor_def split: option.splits dest: map_of_SomeD intro: rev_image_eqI)

lemma cuenta_periodo_snoc:
  "cuenta_periodo p (us @ [u]) = cuenta_periodo p us + (if periodo u = Some p then 1 else 0)"
  by (simp add: cuenta_periodo_def)

lemma periodos_presentes_snoc:
  "periodos_presentes (us @ [u]) =
     periodos_presentes us \<union> (case periodo u of None \<Rightarrow> {} | Some p \<Rightarrow> {p})"
  by (auto simp: periodos_presentes_def split: option.splits)

lemma contar_periodos_snoc:
  "contar_periodos (us @ [u]) =
     (case periodo u of None \<Rightarrow> contar_periodos us
      | Some p \<Rightarrow> poner p (valor (contar_periodos us) p + 1) (contar_periodos us))"
  by (simp add: contar_periodos_def split: option.splits)

lemma contar_periodos_Nil: "contar_periodos [] = []"
  by (simp add: contar_periodos_def)

lemma valor_contar_periodos: "valor (contar_periodos us) p = cuenta_periodo p us"
proof (induction us rule: rev_induct)
  case Nil
  show ?case by (simp add: contar_periodos_Nil valor_Nil cuenta_periodo_def)
next
  case (snoc u us)
  then show ?case
    by (simp add: contar_periodos_snoc cuenta_periodo_snoc valor_poner split: option.splits)
qed

lemma claves_contar_periodos: "fst ` set (contar_periodos us) = periodos_presentes us"
proof (induction us rule: rev_induct)
  case Nil
  show ?case by (simp add: contar_periodos_Nil periodos_presentes_def)
next
  case (snoc u us)
  then show ?case
    by (simp add: contar_periodos_snoc periodos_presentes_snoc claves_poner split: option.splits)
qed

lemma cuenta_periodo_pos: "p \<in> periodos_presentes us \<Longrightarrow> 0 < cuenta_periodo p us"
  by (auto simp: periodos_presentes_def cuenta_periodo_def filter_empty_conv)

lemma porcentaje_30: "porcentaje_de 3 10 = PFloat 30"
  by code_simp

lemma porcentaje_70: "porcentaje_de 7 10 = PFloat 70"
  by code_simp

text \<open>
  Claim C5. For any two classification lists the list of periods is sorted, has no
  repetition, and holds exactly the periods that a record of either list carries (a
  record with no period contributes none); the buckets follow that list, one per
  period. Each bucket holds the number of records of either list with its period, their
  sum as total, which is never zero, and the two percentages rounded to two decimals.
  With 3 and 7 records the percentages are 30.0 and 70.0. The guarded expression gives
  the integer 0 for a zero total, a case no bucket reaches.
\<close>

theorem analizar_distribucion_temporal_correcto:
  "sorted (periodos (analizar_distribucion_temporal us uc))
   \<and> distinct (periodos (analizar_distribucion_temporal us uc))
   \<and> set (periodos (analizar_distribucion_temporal us uc))
       = periodos_presentes us \<union> periodos_presentes uc
   \<and> map b_periodo (datos (analizar_distribucion_temporal us uc))
       = periodos (analizar_distribucion_temporal us uc)
   \<and> (\<forall>b \<in> set (datos (analizar_distribucion_temporal us uc)).
         b_sin_prefijo b = cuenta_periodo (b_periodo b) us
       \<and> b_con_prefijo b = cuenta_periodo (b_periodo b) uc
       \<and> b_total b = b_sin_prefijo b + b_con_prefijo b
       \<and> 0 < b_total b
       \<and> b_porcentaje_sin_prefijo b
           = PFloat (py_round2 (py_mul (py_truediv (b_sin_prefijo b) (b_total b)) 100))
       \<and> b_porcentaje_con_prefijo b
           = PFloat (py_round2 (py_mul (py_truediv (b_con_prefijo b) (b_total b)) 100)))
   \<and> porcentaje_de 3 (3 + 7) = PFloat 30 \<and> porcentaje_de 7 (3 + 7) = PFloat 70
   \<and> porcentaje_de n 0 = PInt 0"
proof -
  let ?r = "analizar_distribucion_temporal us uc"
  have p: "periodos ?r = sort (remdups (map fst (contar_periodos us) @ map fst (contar_periodos uc)))"
    by (simp add: analizar_distribucion_temporal_def Let_def)
  have s: "set (periodos ?r) = periodos_presentes us \<union> periodos_presentes uc"
    using claves_contar_periodos [of us] claves_contar_periodos [of uc] by (simp add: p)
  have d: "datos ?r = map (\<lambda>p. \<lparr>b_periodo = p, b_sin_prefijo = cuenta_periodo p us,
              b_con_prefijo = cuenta_periodo p uc,
              b_total = cuenta_periodo p us + cuenta_periodo p uc,
              b_porcentaje_sin_prefijo =
                porcentaje_de (cuenta_periodo p us) (cuenta_periodo p us + cuenta_periodo p uc),
              b_porcentaje_con_prefijo =
                porcentaje_de (cuenta_periodo p uc) (cuenta_periodo p us + cuenta_periodo p uc)\<rparr>)
            (periodos ?r)"
    by (simp add: analizar_distribucion_temporal_def Let_def valor_contar_periodos)
  have pos: "0 < cuenta_periodo q us + cuenta_periodo q uc" if "q \<in> set (periodos ?r)" for q
    using that cuenta_periodo_pos [of q us] cuenta_periodo_pos [of q uc] unfolding s by auto
  have m: "map b_periodo (datos ?r) = periodos ?r"
    by (simp add: d o_def)
  have b: "\<forall>b \<in> set (datos ?r).
         b_sin_prefijo b = cuenta_periodo (b_periodo b) us
       \<and> b_con_prefijo b = cuenta_periodo (b_periodo b) uc
       \<and> b_total b = b_sin_prefijo b + b_con_prefijo b
       \<and> 0 < b_total b
       \<and> b_porcentaje_sin_prefijo b
           = PFloat (py_round2 (py_mul (py_truediv (b_sin_prefijo b) (b_total b)) 100))
       \<and> b_porcentaje_con_prefijo b
           = PFloat (py_round2 (py_mul (py_truediv (b_con_prefijo b) (b_total b)) 100))"
  proof
    fix b assume "b \<in> set (datos ?r)"
    then obtain q where q: "q \<in> set (periodos ?r)" and bq: "b = \<lparr>b_periodo = q, b_sin_prefijo = cuenta_periodo q us,
              b_con_prefijo = cuenta_periodo q uc,
              b_total = cuenta_periodo q us + cuenta_periodo q uc,
              b_porcentaje_sin_prefijo =
                porcentaje_de (cuenta_periodo q us) (cuenta_periodo q us + cuenta_periodo q uc),
              b_porcentaje_con_prefijo =
                porcentaje_de (cuenta_periodo q uc) (cuenta_periodo q us + cuenta_periodo q uc)\<rparr>"
      unfolding d by auto
    show "b_sin_prefijo b = cuenta_periodo (b_periodo b) us
       \<and> b_con_prefijo b = cuenta_periodo (b_periodo b) uc
       \<and> b_total b = b_sin_prefijo b + b_con_prefijo b
       \<and> 0 < b_total b
       \<and> b_porcentaje_sin_prefijo b
           = PFloat (py_round2 (py_mul (py_truediv (b_sin_prefijo b) (b_total b)) 100))
       \<and> b_porcentaje_con_prefijo b
           = PFloat (py_round2 (py_mul (py_truediv (b_con_prefijo b) (b_total b)) 100))"
      using pos [OF q] by (simp add: bq porcentaje_de_def)
  qed
  have e: "porcentaje_de 3 (3 + 7) = PFloat 30" "porcentaje_de 7 (3 + 7) = PFloat 70"
    using porcentaje_30 porcentaje_70 by simp_all
  have z: "porcentaje_de n 0 = PInt 0"
    by (simp add: porcentaje_de_def)
  have so: "sorted (periodos ?r)" "distinct (periodos ?r)"
    by (simp_all add: p)
  from so s m b e z show ?thesis by blast
qed

lemma analisis_ejemplo:
  "analizar_distribucion_temporal us_ejemplo uc_ejemplo =
     \<lparr>periodos = [''2023-12'', ''2024-01''],
      datos = [\<lparr>b_periodo = ''2023-12'', b_sin_prefijo = 0, b_con_prefijo = 1, b_total = 1,
                b_porcentaje_sin_prefijo = PFloat 0, b_porcentaje_con_prefijo = PFloat 100\<rparr>,
               \<lparr>b_periodo = ''2024-01'', b_sin_prefijo = 3, b_con_prefijo = 7, b_total = 10,
                b_porcentaje_sin_prefijo = PFloat 30, b_porcentaje_con_prefijo = PFloat 70\<rparr>]\<rparr>"
  by code_simp

theorem analizar_distribucion_temporal_correcto_witness:
  "periodos (analizar_distribucion_temporal us_ejemplo uc_ejemplo) = [''2023-12'', ''2024-01'']
   \<and> sorted [''2023-12'', ''2024-01'']
   \<and> cuenta_periodo ''2024-01'' us_ejemplo = 3
   \<and> cuenta_periodo ''2024-01'' uc_ejemplo = 7
   \<and> map b_total (datos (analizar_distribucion_temporal us_ejemplo uc_ejemplo)) = [1, 10]
   \<and> map b_porcentaje_sin_prefijo (datos (analizar_distribucion_temporal us_ejemplo uc_ejemplo))
       = [PFloat 0, PFloat 30]
   \<and> map b_porcentaje_con_prefijo (datos (analizar_distribucion_temporal us_ejemplo uc_ejemplo))
       = [PFloat 100, PFloat 70]"
  using analizar_distribucion_temporal_correcto [of us_ejemplo uc_ejemplo 0]
  by (simp add: analisis_ejemplo)

subsection \<open>Counters of the streaming analysis\<close>

lemma contabilizar_None:
  "fst (procesar_objeto loads strptime objeto_json fechas) = None \<Longrightarrow>
   contabilizar loads strptime fechas objeto_json st =
     st\<lparr>entregados := entregados st @ [objeto_json],
        bitacora := bitacora st @ snd (procesar_objeto loads strptime objeto_json fechas),
        total_usuarios := total_usuarios st + 1, objeto_actual := []\<rparr>"
  by (cases "procesar_objeto loads strptime objeto_json fechas")
     (simp add: contabilizar_def Let_def)

lemma contabilizar_Some:
  "fst (procesar_objeto loads strptime objeto_json fechas) = Some u \<Longrightarrow>
   contabilizar loads strptime fechas objeto_json st =
     st\<lparr>entregados := entregados st @ [objeto_json],
        bitacora := bitacora st @ snd (procesar_objeto loads strptime objeto_json fechas),
        total_usuarios_con_telefono := total_usuarios_con_telefono st + 1,
        usuarios_sin_prefijo := usuarios_sin_prefijo st @ (if sin_prefijo u then [info u] else []),
        usuarios_con_prefijo := usuarios_con_prefijo st @ (if sin_prefijo u then [] else [info u]),
        total_usuarios := total_usuarios st + 1, objeto_actual := []\<rparr>"
  by (cases "procesar_objeto loads strptime objeto_json fechas")
     (simp add: contabilizar_def Let_def)

lemma consistente_contabilizar:
  "consistente st \<Longrightarrow> consistente (contabilizar loads strptime fechas objeto_json st)"
  by (cases "fst (procesar_objeto loads strptime objeto_json fechas)")
     (simp_all add: contabilizar_None contabilizar_Some consistente_def)

lemma consistente_paso:
  "consistente st \<Longrightarrow> consistente (paso loads strptime fechas st linea)"
proof -
  assume c: "consistente st"
  have u: "consistente (st\<lparr>en_objeto := a, objeto_actual := b, llaves_abiertas := d\<rparr>)" for a b d
    using c by (simp add: consistente_def)
  have v: "consistente (st\<lparr>objeto_actual := b, llaves_abiertas := d\<rparr>)" for b d
    using c by (simp add: consistente_def)
  have w: "consistente (x\<lparr>en_objeto := False\<rparr>) = consistente x" for x
    by (simp add: consistente_def)
  show ?thesis
    unfolding paso_def Let_def
    by (simp add: c u v w consistente_contabilizar)
qed

lemma consistente_foldl:
  "consistente st \<Longrightarrow> consistente (foldl (paso loads strptime fechas) st lineas)"
  by (induction lineas arbitrary: st) (simp_all add: consistente_paso)

lemma consistente_leer_objetos: "consistente (leer_objetos loads strptime fechas lineas)"
  unfolding leer_objetos_def
  by (rule consistente_foldl) (simp add: consistente_def estado_inicial_def)

text \<open>
  Claim C9. Whatever the run returns, the count of users with a phone is the size of
  the "without prefix" list plus the size of the "with prefix" list; when the run
  returns a summary, its counters are that count and those sizes, and the total of
  users is at least the count of users with a phone.
\<close>

theorem totales_consistentes:
  assumes "analizar_archivo_json_streaming loads strptime contenido_csv archivo
             = ((us, uc, n, resultados), avisos)"
  shows "n = length us + length uc
       \<and> (\<forall>r. resultados = Some r \<longrightarrow>
             res_total_con_telefono r = n
           \<and> res_total_sin_prefijo r = length us
           \<and> res_total_con_prefijo r = length uc
           \<and> res_total_con_telefono r \<le> res_total_usuarios r)"
proof (cases "\<exists>lineas. archivo = Some lineas \<and> strip (case lineas of [] \<Rightarrow> [] | l # _ \<Rightarrow> l) = ''[''")
  case False
  then have "(us, uc, n, resultados) = ([], [], 0, None)"
    using assms by (auto simp: analizar_archivo_json_streaming_def Let_def split: option.splits if_splits)
  then show ?thesis by simp
next
  case True
  then obtain lineas where l: "archivo = Some lineas"
    "strip (case lineas of [] \<Rightarrow> [] | l # _ \<Rightarrow> l) = ''[''" by blast
  define st where "st = leer_objetos loads strptime (cargar_datos_csv contenido_csv) (tl lineas)"
  have "(us, uc, n, resultados) = resumir st"
    using assms l by (simp add: analizar_archivo_json_streaming_def Let_def st_def)
  moreover have "consistente st"
    unfolding st_def by (rule consistente_leer_objetos)
  ultimately show ?thesis
    by (auto simp: resumir_def consistente_def)
qed

lemma corrida_ejemplo:
  "contadores_salida (fst (analizar_archivo_json_streaming loads_ejemplo strptime_ejemplo
      (Some csv_ejemplo) (Some archivo_ejemplo))) = (1, 1, 2, Some (3, 2, 1, 1, PFloat 50))"
  by code_simp

theorem totales_consistentes_witness:
  "fst (snd (snd (contadores_salida (fst (analizar_archivo_json_streaming loads_ejemplo
       strptime_ejemplo (Some csv_ejemplo) (Some archivo_ejemplo)))))) = 1 + 1"
proof -
  obtain us uc n res av where e: "analizar_archivo_json_streaming loads_ejemplo
       strptime_ejemplo (Some csv_ejemplo) (Some archivo_ejemplo) = ((us, uc, n, res), av)"
    by (metis prod.collapse)
  from totales_consistentes [OF e] have "n = length us + length uc" ..
  moreover from corrida_ejemplo have "length us = 1" "length uc = 1"
    by (simp_all add: e contadores_salida_def)
  ultimately show ?thesis
    by (simp add: e contadores_salida_def)
qed

text \<open>
  Claim C6. In the summary of a run, porcentaje_sin_prefijo is
  round(total_sin_prefijo / total_con_telefono * 100, 2) when total_con_telefono is
  positive, and the integer 0 when it is 0.
\<close>

theorem porcentaje_sin_prefijo_resumen:
  assumes "analizar_archivo_json_streaming loads strptime contenido_csv archivo
             = ((us, uc, n, Some r), avisos)"
  shows "res_porcentaje_sin_prefijo r =
           (if res_total_con_telefono r > 0
            then PFloat (py_round2 (py_mul (py_truediv (res_total_sin_prefijo r)
                                                       (res_total_con_telefono r)) 100))
            else PInt 0)"
proof -
  from assms have "\<exists>st. resumir st = (us, uc, n, Some r)"
    by (auto simp: analizar_archivo_json_streaming_def Let_def split: option.splits if_splits)
  then show ?thesis
    by (auto simp: resumir_def porcentaje_de_def)
qed

lemma medio_ejemplo:
  "PFloat (py_round2 (py_mul (py_truediv 1 2) 100)) = PFloat 50"
  by code_simp

theorem porcentaje_sin_prefijo_resumen_witness:
  "map_option res_porcentaje_sin_prefijo (snd (snd (snd (fst (analizar_archivo_json_streaming
       loads_ejemplo strptime_ejemplo (Some csv_ejemplo) (Some archivo_ejemplo))))))
     = Some (PFloat 50)"
proof -
  obtain us uc n res av where e: "analizar_archivo_json_streaming loads_ejemplo
       strptime_ejemplo (Some csv_ejemplo) (Some archivo_ejemplo) = ((us, uc, n, res), av)"
    by (metis prod.collapse)
  from corrida_ejemplo obtain r where r: "res = Some r" "res_total_con_telefono r = 2"
      "res_total_sin_prefijo r = 1"
    by (auto simp: e contadores_salida_def)
  from porcentaje_sin_prefijo_resumen [OF e [unfolded r(1)]] r medio_ejemplo
  have "res_porcentaje_sin_prefijo r = PFloat 50" by simp
  then show ?thesis by (simp add: e r)
qed

subsection \<open>Fatal and per-record errors\<close>

text \<open>
  Claim C3. When the first line of the JSON file, stripped, is not \<open>[\<close>, the analysis
  prints the error and returns two empty lists, the count 0 and the empty dict. The
  main function then reads the key \<^verbatim>\<open>total_usuarios\<close> of that empty dict: the
  run ends with an uncaught KeyError instead of exiting cleanly.
\<close>

theorem primera_linea_invalida:
  assumes "strip (case lineas of [] \<Rightarrow> [] | l # _ \<Rightarrow> l) \<noteq> ''[''"
  shows "analizar_archivo_json_streaming loads strptime contenido_csv (Some lineas)
           = (([], [], 0, None), [ErrorNoComienzaConCorchete])
       \<and> main loads strptime contenido_csv (Some lineas) = Inl (KeyError ''total_usuarios'')"
  using assms by (simp add: analizar_archivo_json_streaming_def main_def Let_def)

theorem primera_linea_invalida_witness:
  "main loads_ejemplo strptime_ejemplo (Some csv_ejemplo) (Some archivo_compacto)
     = Inl (KeyError ''total_usuarios'')"
proof -
  have "strip (case archivo_compacto of [] \<Rightarrow> [] | l # _ \<Rightarrow> l) \<noteq> ''[''"
    by (simp add: archivo_compacto_def strip_def is_space_def)
  from primera_linea_invalida [OF this] show ?thesis by simp
qed

lemma contabilizar_lector:
  "entregados (contabilizar loads strptime fechas objeto_json st) = entregados st @ [objeto_json]"
  "llaves_abiertas (contabilizar loads strptime fechas objeto_json st) = llaves_abiertas st"
  "en_objeto (contabilizar loads strptime fechas objeto_json st) = en_objeto st"
  "objeto_actual (contabilizar loads strptime fechas objeto_json st) = []"
  "total_usuarios (contabilizar loads strptime fechas objeto_json st) = total_usuarios st + 1"
  by (cases "fst (procesar_objeto loads strptime objeto_json fechas)";
      simp add: contabilizar_None contabilizar_Some)+

lemma linea_partida_forma:
  "strip linea_partida = linea_partida" "linea_partida \<noteq> []"
  "startswith linea_partida ''{''" "balance_llaves linea_partida = 1"
  "\<not> endswith linea_partida ''},''" "endswith linea_partida ''}''"
  by (simp_all add: linea_partida_def strip_def is_space_def startswith_def
      balance_llaves_def endswith_def)

lemma corrida_partida:
  "contadores_salida (fst (analizar_archivo_json_streaming loads_ejemplo strptime_ejemplo
      None (Some archivo_partido))) = (0, 0, 0, Some (1, 0, 0, 0, PInt 0))"
  by code_simp

text \<open>
  Inside an object the test of line 189 hands the buffer over exactly when the balance is
  back to zero and the line ends with a closing brace, with or without a comma.
\<close>

lemma paso_en_objeto:
  assumes "en_objeto st" and "strip linea \<noteq> []"
  shows "entregados (paso loads strptime fechas st linea) =
           entregados st @
           (if llaves_abiertas st + balance_llaves (strip linea) = 0
               \<and> (endswith (strip linea) ''},'' \<or> endswith (strip linea) ''}'')
            then [sin_coma_final (strip linea) (objeto_actual st @ strip linea)]
            else [])"
  using assms by (simp add: paso_def Let_def contabilizar_lector)

text \<open>
  Claim C2. The test of line 164 reads \<^verbatim>\<open>A and B or C\<close>, where the test of line 189
  has parentheses around the disjunction. On the first line of an object that ends with
  the closing brace of a nested empty object, the balance of braces is 1 and the line
  ends with a brace: the text is handed to the classifier with the braces still open,
  whatever the parser. In the array of one valid object written that way the text fails
  to parse, the closing line is ignored, and the user is counted in no list.
\<close>

theorem entrega_con_llaves_abiertas:
  "entregados (paso loads strptime fechas estado_inicial linea_partida) = [linea_partida]
   \<and> llaves_abiertas (paso loads strptime fechas estado_inicial linea_partida) = 1
   \<and> \<not> en_objeto (paso loads strptime fechas estado_inicial linea_partida)
   \<and> contadores_salida (fst (analizar_archivo_json_streaming loads_ejemplo strptime_ejemplo
        None (Some archivo_partido))) = (0, 0, 0, Some (1, 0, 0, 0, PInt 0))"
proof -
  have "paso loads strptime fechas estado_inicial linea_partida =
          contabilizar loads strptime fechas linea_partida
            (estado_inicial\<lparr>en_objeto := False, objeto_actual := linea_partida,
                            llaves_abiertas := 1\<rparr>)"
    by (simp add: paso_def Let_def linea_partida_forma sin_coma_final_def estado_inicial_def)
  then show ?thesis
    by (simp add: contabilizar_lector estado_inicial_def corrida_partida)
qed

theorem entrega_con_llaves_abiertas_witness:
  "entregados (paso loads_ejemplo strptime_ejemplo Map.empty estado_inicial linea_partida)
     = [linea_partida]
   \<and> llaves_abiertas (paso loads_ejemplo strptime_ejemplo Map.empty estado_inicial linea_partida) = 1"
  using entrega_con_llaves_abiertas [of loads_ejemplo strptime_ejemplo Map.empty] by blast

text \<open>
  Claim C4, as amended. When the text of an object fails to parse, or the classifier
  raises on the parsed value, the classifier returns no result and prints one message:
  the first 100 characters of the text for a parse failure, the exception otherwise.
  The reconstructor then counts the object in \<open>total_usuarios\<close> and in nothing
  else: the count of users with a phone and the two lists are unchanged, the buffer is
  empty again, and the loop goes on with the state so obtained.
\<close>

theorem objeto_invalido_se_omite:
  assumes "loads objeto_json = None
           \<or> (\<exists>usuario e. loads objeto_json = Some usuario
                 \<and> clasificar strptime fechas usuario = Inl e)"
  shows "fst (procesar_objeto loads strptime objeto_json fechas) = None
       \<and> (loads objeto_json = None \<longrightarrow>
            snd (procesar_objeto loads strptime objeto_json fechas)
              = [ErrorDecodificarJSON (take 100 objeto_json)])
       \<and> (\<forall>usuario e. loads objeto_json = Some usuario
              \<and> clasificar strptime fechas usuario = Inl e \<longrightarrow>
            snd (procesar_objeto loads strptime objeto_json fechas) = [ErrorProcesarObjeto e])
       \<and> contabilizar loads strptime fechas objeto_json st =
            st\<lparr>entregados := entregados st @ [objeto_json],
               bitacora := bitacora st @ snd (procesar_objeto loads strptime objeto_json fechas),
               total_usuarios := total_usuarios st + 1, objeto_actual := []\<rparr>"
proof -
  have n: "fst (procesar_objeto loads strptime objeto_json fechas) = None"
    using assms by (auto simp: procesar_objeto_def)
  show ?thesis
    using n contabilizar_None [OF n, of st] by (auto simp: procesar_objeto_def)
qed

lemma loads_ejemplo_malformado: "loads_ejemplo texto_malformado = None"
  by (simp add: loads_ejemplo_def texto_malformado_def texto_simple_def texto_diez_def
      texto_atributos_lista_def texto_con_override_def)

theorem objeto_invalido_se_omite_witness:
  "total_usuarios (contabilizar loads_ejemplo strptime_ejemplo Map.empty texto_malformado
     estado_inicial) = 1
   \<and> total_usuarios_con_telefono (contabilizar loads_ejemplo strptime_ejemplo Map.empty
       texto_malformado estado_inicial) = 0
   \<and> bitacora (contabilizar loads_ejemplo strptime_ejemplo Map.empty texto_malformado
       estado_inicial) = [ErrorDecodificarJSON texto_malformado]
   \<and> contadores_salida (fst (analizar_archivo_json_streaming loads_ejemplo strptime_ejemplo
        (Some csv_ejemplo) (Some archivo_ejemplo))) = (1, 1, 2, Some (3, 2, 1, 1, PFloat 50))"
proof -
  have t: "take 100 texto_malformado = texto_malformado"
    by (simp add: texto_malformado_def)
  from objeto_invalido_se_omite [of loads_ejemplo texto_malformado strptime_ejemplo Map.empty
      estado_inicial] loads_ejemplo_malformado t corrida_ejemplo
  show ?thesis by (simp add: estado_inicial_def)
qed

theorem objeto_invalido_cuenta_counterexample:
  "loads_ejemplo texto_malformado = None
   \<and> strip (archivo_malformado ! 1) = texto_malformado
   \<and> contadores_salida (fst (analizar_archivo_json_streaming loads_ejemplo strptime_ejemplo
        None (Some archivo_malformado))) = (0, 0, 0, Some (1, 0, 0, 0, PInt 0))"
  by code_simp

subsection \<open>The registration date of a classified record\<close>

lemma con_atributos_conserva:
  assumes "con_atributos usuario i = Inr i'"
  shows "periodo i' = periodo i" and "anio_registro i' = anio_registro i"
    and "mes_registro i' = mes_registro i"
    and "ultimos_10_digitos i' = ultimos_10_digitos i"
    and "phone i' = phone i"
    and "fecha_registro i \<noteq> JStr no_disponible \<Longrightarrow> fecha_registro i' = fecha_registro i"
  using assms
  by (auto simp: con_atributos_def luego_def Let_def split: sum.splits if_splits)

lemma con_fecha_csv_campos:
  "ultimos_10_digitos (con_fecha_csv strptime fechas i) = ultimos_10_digitos i"
  "phone (con_fecha_csv strptime fechas i) = phone i"
  by (simp_all add: con_fecha_csv_def Let_def split: option.splits)

lemma con_fecha_csv_hallada:
  assumes "fechas (ultimos_10_digitos i) = Some f"
  shows "strptime f = Some (a, m) \<Longrightarrow>
           anio_registro (con_fecha_csv strptime fechas i) = Some a
         \<and> mes_registro (con_fecha_csv strptime fechas i) = Some m
         \<and> periodo (con_fecha_csv strptime fechas i) = Some (str_nat a @ ''-'' @ formato_02d m)"
    and "strptime f = None \<Longrightarrow>
           anio_registro (con_fecha_csv strptime fechas i) = anio_registro i
         \<and> mes_registro (con_fecha_csv strptime fechas i) = mes_registro i
         \<and> periodo (con_fecha_csv strptime fechas i) = periodo i"
    and "fecha_registro (con_fecha_csv strptime fechas i) = JStr f"
  using assms by (simp_all add: con_fecha_csv_def Let_def split: option.splits)

lemma con_fecha_csv_ausente:
  "fechas (ultimos_10_digitos i) = None \<Longrightarrow> con_fecha_csv strptime fechas i = i"
  by (simp add: con_fecha_csv_def)

lemma clasificar_Some:
  assumes "clasificar strptime fechas usuario = Inr (Some u)"
  obtains numero i0 where "py_item usuario ''phone'' = Inr (JStr numero)"
    and "sin_prefijo u = es_numero_mexicano_sin_prefijo numero"
    and "con_atributos usuario (con_fecha_csv strptime fechas i0) = Inr (info u)"
    and "periodo i0 = None" and "anio_registro i0 = None" and "mes_registro i0 = None"
    and "fecha_registro i0 = JStr no_disponible"
    and "phone i0 = numero"
  using assms
  apply (simp add: clasificar_def luego_def Let_def split: sum.splits if_splits)
  apply (case_tac x2a; simp split: sum.splits)
  apply fastforce
  done


lemma is_digit_digito: "d < 10 \<Longrightarrow> is_digit (digito d)"
  by (simp add: is_digit_def digito_def less_eq_char_def)

lemma str_nat_uno: "n < 10 \<Longrightarrow> str_nat n = [digito n]"
  by (subst str_nat.simps) simp

lemma str_nat_dos:
  assumes "10 \<le> n" and "n < 100"
  shows "str_nat n = [digito (n div 10), digito (n mod 10)]"
proof -
  have "n div 10 < 10" using assms by simp
  then show ?thesis
    using assms by (subst str_nat.simps) (simp add: str_nat_uno)
qed

lemma str_nat_tres:
  assumes "100 \<le> n" and "n < 1000"
  shows "str_nat n = [digito (n div 10 div 10), digito (n div 10 mod 10), digito (n mod 10)]"
proof -
  have "10 \<le> n div 10" "n div 10 < 100" using assms by simp_all
  then show ?thesis
    using assms by (subst str_nat.simps) (simp add: str_nat_dos)
qed

lemma str_nat_cuatro:
  assumes "1000 \<le> n" and "n < 10000"
  shows "str_nat n = [digito (n div 10 div 10 div 10), digito (n div 10 div 10 mod 10),
                      digito (n div 10 mod 10), digito (n mod 10)]"
proof -
  have "100 \<le> n div 10" "n div 10 < 1000" using assms by simp_all
  then show ?thesis
    using assms by (subst str_nat.simps) (simp add: str_nat_tres)
qed

lemma digito_cero: "digito 0 = CHR ''0''"
  by code_simp

lemma formato_02d_dos:
  "m < 100 \<Longrightarrow> formato_02d m = [digito (m div 10), digito (m mod 10)]"
  by (cases "m < 10") (simp_all add: formato_02d_def str_nat_uno str_nat_dos digito_cero)

lemma forma_periodo_anio_mes:
  assumes "1000 \<le> a" and "a \<le> 9999" and "m \<le> 12"
  shows "forma_periodo (str_nat a @ ''-'' @ formato_02d m)"
proof -
  have a: "str_nat a = [digito (a div 10 div 10 div 10), digito (a div 10 div 10 mod 10),
                digito (a div 10 mod 10), digito (a mod 10)]"
    using assms by (intro str_nat_cuatro) simp_all
  have m: "formato_02d m = [digito (m div 10), digito (m mod 10)]"
    using assms by (intro formato_02d_dos) simp
  have "a div 10 div 10 div 10 < 10" using assms by simp
  moreover have "m div 10 < 10" using assms by simp
  ultimately show ?thesis
    by (simp add: a m forma_periodo_def is_digit_digito)
qed

text \<open>
  Claim C8, as amended. For every classified record: when the index holds a date for
  the last ten digits and the date parses, the record has the year, the month and a
  period made of the decimal digits of the year, a hyphen, and the month on two digits
  (the form YYYY-MM for a year of four digits); when the date does not parse, or the
  index holds none, the record has none of the three fields, so the override of the
  custom attributes is never parsed; and when the index holds a date other than the
  text of the sentinel, that date is the registration date of the record.
\<close>

theorem fecha_de_registro_clasificada:
  assumes "clasificar strptime fechas usuario = Inr (Some u)"
  shows "(\<forall>f a m. fechas (ultimos_10_digitos (info u)) = Some f \<and> strptime f = Some (a, m) \<longrightarrow>
            anio_registro (info u) = Some a \<and> mes_registro (info u) = Some m
          \<and> periodo (info u) = Some (str_nat a @ ''-'' @ formato_02d m)
          \<and> (1000 \<le> a \<and> a \<le> 9999 \<and> m \<le> 12 \<longrightarrow>
               forma_periodo (str_nat a @ ''-'' @ formato_02d m)))
       \<and> (\<forall>f. fechas (ultimos_10_digitos (info u)) = Some f \<and> strptime f = None \<longrightarrow>
            anio_registro (info u) = None \<and> mes_registro (info u) = None
          \<and> periodo (info u) = None)
       \<and> (fechas (ultimos_10_digitos (info u)) = None \<longrightarrow>
            anio_registro (info u) = None \<and> mes_registro (info u) = None
          \<and> periodo (info u) = None)
       \<and> (\<forall>f. fechas (ultimos_10_digitos (info u)) = Some f \<and> f \<noteq> no_disponible \<longrightarrow>
            fecha_registro (info u) = JStr f)"
proof -
  from assms obtain numero i0 where
    c: "con_atributos usuario (con_fecha_csv strptime fechas i0) = Inr (info u)"
    and z: "periodo i0 = None" "anio_registro i0 = None" "mes_registro i0 = None"
    by (rule clasificar_Some)
  note k = con_atributos_conserva [OF c]
  have u: "ultimos_10_digitos (info u) = ultimos_10_digitos i0"
    by (simp add: k(4) con_fecha_csv_campos)
  have 1: "anio_registro (info u) = Some a \<and> mes_registro (info u) = Some m
          \<and> periodo (info u) = Some (str_nat a @ ''-'' @ formato_02d m)"
    if "fechas (ultimos_10_digitos (info u)) = Some f" "strptime f = Some (a, m)" for f a m
    using that(1) [unfolded u] that(2)
      con_fecha_csv_hallada(1) [where fechas = fechas and i = i0 and f = f
        and strptime = strptime and a = a and m = m]
    by (simp add: k(1,2,3))
  have 2: "anio_registro (info u) = None \<and> mes_registro (info u) = None
          \<and> periodo (info u) = None"
    if "fechas (ultimos_10_digitos (info u)) = Some f" "strptime f = None" for f
    using that(1) [unfolded u] that(2)
      con_fecha_csv_hallada(2) [where fechas = fechas and i = i0 and f = f
        and strptime = strptime]
    by (simp add: k(1,2,3) z)
  have 3: "anio_registro (info u) = None \<and> mes_registro (info u) = None
          \<and> periodo (info u) = None"
    if "fechas (ultimos_10_digitos (info u)) = None"
    using that [unfolded u]
      con_fecha_csv_ausente [where fechas = fechas and i = i0 and strptime = strptime]
    by (simp add: k(1,2,3) z)
  have 4: "fecha_registro (info u) = JStr f"
    if "fechas (ultimos_10_digitos (info u)) = Some f" "f \<noteq> no_disponible" for f
  proof -
    have "fecha_registro (con_fecha_csv strptime fechas i0) = JStr f"
      using that(1) [unfolded u]
        con_fecha_csv_hallada(3) [where fechas = fechas and i = i0 and f = f
          and strptime = strptime]
      by simp
    with that(2) k(6) show ?thesis by simp
  qed
  from 1 2 3 4 forma_periodo_anio_mes show ?thesis by blast
qed

lemma clasificar_ejemplo:
  "clasificar strptime_ejemplo (cargar_datos_csv (Some csv_ejemplo)) usuario_simple =
     Inr (Some \<lparr>sin_prefijo = False,
       info = \<lparr>phone = ''15512345678'', phone_limpio = ''15512345678'',
         ultimos_10_digitos = ''5512345678'', phone_length = 11,
         email = JStr ''No disponible'', external_id = JStr ''No disponible'',
         country = JStr ''No disponible'', fecha_registro = JStr ''2024-01-15 10:30:00'',
         anio_registro = Some 2024, mes_registro = Some 1, periodo = Some ''2024-01'',
         nombre = None, apellido_paterno = None, apellido_materno = None,
         entidad = None\<rparr>\<rparr>)"
  by code_simp

theorem fecha_de_registro_clasificada_witness:
  "cargar_datos_csv (Some csv_ejemplo) ''5512345678'' = Some ''2024-01-15 10:30:00''
   \<and> strptime_ejemplo ''2024-01-15 10:30:00'' = Some (2024, 1)
   \<and> str_nat 2024 @ ''-'' @ formato_02d 1 = ''2024-01''
   \<and> forma_periodo (str_nat 2024 @ ''-'' @ formato_02d 1)"
proof -
  have a: "cargar_datos_csv (Some csv_ejemplo) ''5512345678'' = Some ''2024-01-15 10:30:00''"
    by code_simp
  have b: "strptime_ejemplo ''2024-01-15 10:30:00'' = Some (2024, 1)"
    by (simp add: strptime_ejemplo_def)
  have c: "str_nat 2024 @ ''-'' @ formato_02d 1 = ''2024-01''"
    by code_simp
  from fecha_de_registro_clasificada [OF clasificar_ejemplo] a b
  have "forma_periodo (str_nat 2024 @ ''-'' @ formato_02d 1)"
    by simp
  with a b c show ?thesis by simp
qed

theorem fecha_de_registro_counterexample:
  "cargar_datos_csv (Some csv_centinela) ''5512345678'' = Some ''No disponible''
   \<and> map_option (\<lambda>u. (ultimos_10_digitos (info u), fecha_registro (info u)))
        (fst (procesar_objeto loads_ejemplo strptime_ejemplo texto_con_override
               (cargar_datos_csv (Some csv_centinela))))
       = Some (''5512345678'', JStr ''2020-05-01'')
   \<and> cargar_datos_csv (Some csv_anio_corto) ''5512345678'' = Some ''0999-01-01 00:00:00''
   \<and> strptime_ejemplo ''0999-01-01 00:00:00'' = Some (999, 1)
   \<and> map_option (\<lambda>u. periodo (info u))
        (fst (procesar_objeto loads_ejemplo strptime_ejemplo texto_diez
               (cargar_datos_csv (Some csv_anio_corto))))
       = Some (Some ''999-01'')
   \<and> \<not> forma_periodo ''999-01''"
  by code_simp

subsection \<open>Independence from the registration index\<close>



















end
